theory Spec2Isabelle
  imports Complex_Main "HOL-Library.Word" "HOL-Library.Log_Nat" "HOL-Library.AList"
    "HOL-Library.Char_ord" "HOL-Library.List_Lexorder"
begin

unbundle bit_operations_syntax

section \<open>Numbers of the Go program\<close>

text \<open>
  A value of Go's \<open>float32\<close> or \<open>float64\<close> is NaN, one of the two infinities, or a
  finite number, modelled by the real number it denotes.  The sign of a zero and the
  payload of a NaN are not modelled.  An arithmetic operation on finite values rounds
  its exact result to the nearest value of its format, ties to even (24 significant bits
  and exponents -126..127 for \<open>float32\<close>, 53 bits and -1022..1023 for \<open>float64\<close>);
  results below the smallest normal number are rounded on the subnormal grid, and results
  beyond the largest finite number become an infinity.  Widening \<open>float32\<close> to
  \<open>float64\<close> is exact and is therefore the identity.
\<close>

datatype float = NaN | MInf | Finite real | PInf

type_synonym float32 = float
type_synonym float64 = float
type_synonym byte = "8 word"

definition round_half_even :: "real \<Rightarrow> int" where
  "round_half_even x =
     (let f = \<lfloor>x\<rfloor>; d = x - of_int f in
      if d < 1 / 2 then f else if 1 / 2 < d then f + 1 else if even f then f else f + 1)"

text \<open>The binary exponent \<open>e\<close> of a non-zero \<open>x\<close>: \<open>2 ^ e \<le> \<bar>x\<bar> < 2 ^ (e + 1)\<close>.\<close>

definition fexponent :: "real \<Rightarrow> int" where
  "fexponent x =
     (let a = \<bar>x\<bar> in
      if 1 \<le> a then bitlen \<lfloor>a\<rfloor> - 1 else - bitlen (\<lceil>1 / a\<rceil> - 1))"

text \<open>
  Rounding a real number to the format with \<open>p\<close> significant bits and exponents
  \<open>emin..emax\<close>.
\<close>

definition round_to_format :: "nat \<Rightarrow> int \<Rightarrow> int \<Rightarrow> real \<Rightarrow> float" where
  "round_to_format p emin emax x =
     (if x = 0 then Finite 0
      else let e = max (fexponent x) emin;
               u = 2 powi (e - (int p - 1));
               y = of_int (round_half_even (x / u)) * u
           in if 2 powi (emax + 1) \<le> \<bar>y\<bar> then (if x < 0 then MInf else PInf)
              else Finite y)"

definition f32r :: "real \<Rightarrow> float32" where
  "f32r = round_to_format 24 (- 126) 127"

definition f64r :: "real \<Rightarrow> float64" where
  "f64r = round_to_format 53 (- 1022) 1023"

text \<open>
  The IEEE-754 operations, for the rounding \<open>r\<close> of the format.  A zero divisor stands for
  \<open>+0\<close>.
\<close>

fun is_negative :: "float \<Rightarrow> bool" where
  "is_negative MInf = True"
| "is_negative (Finite x) = (x < 0)"
| "is_negative _ = False"

fun fl_neg :: "float \<Rightarrow> float" where
  "fl_neg NaN = NaN"
| "fl_neg MInf = PInf"
| "fl_neg PInf = MInf"
| "fl_neg (Finite x) = Finite (- x)"

fun fl_add :: "(real \<Rightarrow> float) \<Rightarrow> float \<Rightarrow> float \<Rightarrow> float" where
  "fl_add r (Finite x) (Finite y) = r (x + y)"
| "fl_add r NaN b = NaN"
| "fl_add r a NaN = NaN"
| "fl_add r PInf MInf = NaN"
| "fl_add r MInf PInf = NaN"
| "fl_add r PInf b = PInf"
| "fl_add r a PInf = PInf"
| "fl_add r MInf b = MInf"
| "fl_add r a MInf = MInf"

definition fl_sub :: "(real \<Rightarrow> float) \<Rightarrow> float \<Rightarrow> float \<Rightarrow> float" where
  "fl_sub r a b = fl_add r a (fl_neg b)"

fun fl_mul :: "(real \<Rightarrow> float) \<Rightarrow> float \<Rightarrow> float \<Rightarrow> float" where
  "fl_mul r (Finite x) (Finite y) = r (x * y)"
| "fl_mul r NaN b = NaN"
| "fl_mul r a NaN = NaN"
| "fl_mul r a b =
     (if a = Finite 0 \<or> b = Finite 0 then NaN
      else if is_negative a = is_negative b then PInf else MInf)"

fun fl_div :: "(real \<Rightarrow> float) \<Rightarrow> float \<Rightarrow> float \<Rightarrow> float" where
  "fl_div r (Finite x) (Finite y) =
     (if y = 0 then (if x = 0 then NaN else if x < 0 then MInf else PInf) else r (x / y))"
| "fl_div r NaN b = NaN"
| "fl_div r a NaN = NaN"
| "fl_div r (Finite x) b = Finite 0"
| "fl_div r a (Finite y) = (if is_negative a = (y < 0) then PInf else MInf)"
| "fl_div r a b = NaN"

definition f64_sub :: "float64 \<Rightarrow> float64 \<Rightarrow> float64" where
  "f64_sub a b = fl_sub f64r a b"

definition f64_add :: "float64 \<Rightarrow> float64 \<Rightarrow> float64" where
  "f64_add a b = fl_add f64r a b"

definition f64_mul :: "float64 \<Rightarrow> float64 \<Rightarrow> float64" where
  "f64_mul a b = fl_mul f64r a b"

definition f64_div :: "float64 \<Rightarrow> float64 \<Rightarrow> float64" where
  "f64_div a b = fl_div f64r a b"

definition f32_add :: "float32 \<Rightarrow> float32 \<Rightarrow> float32" where
  "f32_add a b = fl_add f32r a b"

definition f32_mul :: "float32 \<Rightarrow> float32 \<Rightarrow> float32" where
  "f32_mul a b = fl_mul f32r a b"

definition f32_div :: "float32 \<Rightarrow> float32 \<Rightarrow> float32" where
  "f32_div a b = fl_div f32r a b"

text \<open>The conversion \<open>float32(x)\<close> of a \<open>float64\<close>.\<close>

fun float32_of_float64 :: "float64 \<Rightarrow> float32" where
  "float32_of_float64 (Finite x) = f32r x"
| "float32_of_float64 a = a"

text \<open>The comparisons \<open><\<close>, \<open>\<le>\<close> and \<open>==\<close>: all false when an operand is NaN.\<close>

fun fl_less :: "float \<Rightarrow> float \<Rightarrow> bool" where
  "fl_less (Finite x) (Finite y) = (x < y)"
| "fl_less NaN b = False"
| "fl_less a NaN = False"
| "fl_less PInf b = False"
| "fl_less a MInf = False"
| "fl_less a b = True"

fun fl_le :: "float \<Rightarrow> float \<Rightarrow> bool" where
  "fl_le (Finite x) (Finite y) = (x \<le> y)"
| "fl_le NaN b = False"
| "fl_le a NaN = False"
| "fl_le MInf b = True"
| "fl_le a PInf = True"
| "fl_le a b = False"

definition fl_eq :: "float \<Rightarrow> float \<Rightarrow> bool" where
  "fl_eq a b = (a \<noteq> NaN \<and> a = b)"

text \<open>
  \<open>math.Max\<close> and \<open>math.Min\<close>: an infinity of the right sign wins, then NaN, then the
  comparison.
\<close>

definition math_Max :: "float64 \<Rightarrow> float64 \<Rightarrow> float64" where
  "math_Max x y =
     (if x = PInf \<or> y = PInf then PInf
      else if x = NaN \<or> y = NaN then NaN
      else if fl_less y x then x else y)"

definition math_Min :: "float64 \<Rightarrow> float64 \<Rightarrow> float64" where
  "math_Min x y =
     (if x = MInf \<or> y = MInf then MInf
      else if x = NaN \<or> y = NaN then NaN
      else if fl_less x y then x else y)"

text \<open>
  A conversion of a floating-point value to an integer type drops the fraction.  Where the
  result does not fit the integer type Go leaves the value to the implementation; the
  model keeps the low bits of the truncated integer there, and takes 0 for NaN and the
  infinities.
\<close>

definition trunc :: "real \<Rightarrow> int" where
  "trunc x = (if 0 \<le> x then \<lfloor>x\<rfloor> else \<lceil>x\<rceil>)"

fun uint8_of_float :: "float \<Rightarrow> byte" where
  "uint8_of_float (Finite x) = word_of_int (trunc x)"
| "uint8_of_float _ = 0"

fun uint32_of_float :: "float \<Rightarrow> 32 word" where
  "uint32_of_float (Finite x) = word_of_int (trunc x)"
| "uint32_of_float _ = 0"

text \<open>The conversions \<open>float64(n)\<close> of a \<open>uint32\<close> and of an \<open>int32\<close> are exact.\<close>

definition float64_of_uint32 :: "32 word \<Rightarrow> float64" where
  "float64_of_uint32 w = Finite (real (unat w))"

definition float64_of_int32 :: "32 word \<Rightarrow> float64" where
  "float64_of_int32 w = Finite (real_of_int (sint w))"

definition float32_of_uint32 :: "32 word \<Rightarrow> float32" where
  "float32_of_uint32 w = f32r (real (unat w))"

subsection \<open>binary.Write with binary.LittleEndian\<close>

definition le32 :: "32 word \<Rightarrow> byte list" where
  "le32 w = [ucast w, ucast (drop_bit 8 w), ucast (drop_bit 16 w), ucast (drop_bit 24 w)]"

text \<open>
  The IEEE-754 binary32 bit pattern of a \<open>float32\<close> value: sign, biased exponent and 23
  fraction bits; values below \<open>2 ^ -126\<close> are subnormal.  NaN is given the pattern of
  the default quiet NaN.
\<close>

fun f32_bits :: "float32 \<Rightarrow> 32 word" where
  "f32_bits NaN = 0x7FC00000"
| "f32_bits PInf = 0x7F800000"
| "f32_bits MInf = 0xFF800000"
| "f32_bits (Finite x) =
     (if x = 0 then 0
      else let s = (if x < 0 then 2 ^ 31 else 0) :: 32 word;
               a = \<bar>x\<bar>;
               e = fexponent a
           in if e < - 126 then s + word_of_int (round_half_even (a * 2 ^ 149))
              else s + word_of_int ((e + 127) * 2 ^ 23
                                    + (round_half_even (a / 2 powi (e - 23)) - 2 ^ 23)))"

definition write_float32 :: "byte list \<Rightarrow> float32 \<Rightarrow> byte list" where
  "write_float32 outBuf x = outBuf @ le32 (f32_bits x)"

definition write_int32 :: "byte list \<Rightarrow> 32 word \<Rightarrow> byte list" where
  "write_int32 outBuf w = outBuf @ le32 w"

text \<open>A run-time panic of the Go program (an index out of range).\<close>

datatype panic = IndexOutOfRange

section \<open>The geometry model\<close>

text \<open>Fixed-size arrays \<open>[3]float32\<close> and \<open>[3]int32\<close> are triples.\<close>

type_synonym float32x3 = "float32 \<times> float32 \<times> float32"

fun at0 :: "'a \<times> 'a \<times> 'a \<Rightarrow> 'a" where "at0 (a, b, c) = a"
fun at1 :: "'a \<times> 'a \<times> 'a \<Rightarrow> 'a" where "at1 (a, b, c) = b"
fun at2 :: "'a \<times> 'a \<times> 'a \<Rightarrow> 'a" where "at2 (a, b, c) = c"

record Material =
  AmbientColor :: float32x3
  DiffuseColor :: float32x3
  SpecularColor :: float32x3
  SpecularPower :: float32
  EmissiveColor :: float32x3
  Opacity :: float32

record Triangle =
  TriangleIndices :: "32 word \<times> 32 word \<times> 32 word"

record Vector4 =
  R :: float32
  G :: float32
  B :: float32
  A :: float32

record Vector3 =
  X :: float32
  Y :: float32
  Z :: float32

record Vector2 =
  U :: float32
  V :: float32

record Vertex =
  Color :: Vector4
  Position :: Vector3
  Normal :: Vector3
  UV :: Vector2

record Geometry =
  Vertices :: "Vertex list"
  Faces :: "Triangle list"
  Material :: Material

record Model =
  Meshes :: "Geometry list"

section \<open>The glTF schema\<close>

text \<open>
  The records carry the fields this program stores into; every other field of the Go
  structs keeps its zero value (\<open>nil\<close>, \<open>0\<close>, \<open>""\<close>) in every document built here.
  A field of type \<open>interface{}\<close> that the program always fills has the type of the value
  stored; one it may leave \<open>nil\<close> is an option.
\<close>

record Accessor =
  BufferView :: int
  ByteOffset :: int
  ComponentType :: int
  Count :: int
  Type :: string
  Max_acc :: "float32 list"
  Min_acc :: "float32 list"

record Asset =
  Generator :: string
  Version :: string

record BufferView =
  Buffer :: int
  ByteLength :: int
  ByteOffset :: int
  ByteStride :: int
  Target :: int

record GltfTexture =
  Source :: int

record GltfImage =
  URI :: string

record GltfBuffer =
  ByteLength :: int
  Bytes :: "byte list"
  URI :: string

record MaterialPbrMetallicRoughness =
  BaseColorFactor :: "float64 list"
  BaseColorTexture :: "(string \<times> int) list option"
  MetallicFactor :: float64
  RoughnessFactor :: float64

record GltfMaterial =
  AlphaMode :: "string option"
  DoubleSided :: bool
  PbrMetallicRoughness :: MaterialPbrMetallicRoughness

record meshInfoAssociation =
  MeshIndicesAccessorIndex :: int
  MeshVerticesAccessorIndex :: int
  MeshNormalsAccessorIndex :: int
  MeshMaterialIndex :: int
  MeshUVAccessorIndex :: int
  MeshVertexColorAccessorIndex :: int

record MeshPrimitive =
  Attributes :: "(string \<times> int) list"
  Indices :: int
  Material :: int

record Mesh =
  Name :: string
  Primitives :: "MeshPrimitive list"

record Node =
  Mesh :: int
  Name :: string

record Scene =
  Nodes :: "int list"

record GlTF =
  Accessors :: "Accessor list"
  Asset :: Asset
  Buffers :: "GltfBuffer list"
  BufferViews :: "BufferView list"
  Images :: "GltfImage list"
  Materials :: "GltfMaterial list"
  Meshes :: "Mesh list"
  Nodes :: "Node list"
  Scene :: int
  Scenes :: "Scene list"
  Textures :: "GltfTexture list"

section \<open>Materials\<close>

text \<open>\<open>gltfMaterial\<close>: the glTF material derived from a source material.\<close>

definition gltfMaterial :: "Material \<Rightarrow> GltfMaterial" where
  "gltfMaterial material =
     (let outMaterial =
            \<lparr> AlphaMode = None,
              DoubleSided = True,
              PbrMetallicRoughness =
                \<lparr> BaseColorFactor =
                    [at0 (DiffuseColor material), at1 (DiffuseColor material),
                     at2 (DiffuseColor material), Opacity material],
                  BaseColorTexture = None,
                  MetallicFactor = Finite 0,
                  RoughnessFactor = f64_sub (Finite 1) (f64_div (SpecularPower material) (Finite 128)) \<rparr> \<rparr>
      in if fl_less (Opacity material) (Finite 1) then outMaterial\<lparr> AlphaMode := Some ''BLEND'' \<rparr>
         else outMaterial)"

text \<open>
  \<open>areMaterialsEqual\<close> indexes both base colour factors at 0..3; a slice with fewer than
  four elements makes the index expression panic.
\<close>

definition areMaterialsEqual :: "GltfMaterial \<Rightarrow> GltfMaterial \<Rightarrow> panic + bool" where
  "areMaterialsEqual a b =
     (let fa = BaseColorFactor (PbrMetallicRoughness a);
          fb = BaseColorFactor (PbrMetallicRoughness b)
      in if length fa < 4 \<or> length fb < 4 then Inl IndexOutOfRange
         else
           let sameR = fl_eq (fa ! 0) (fb ! 0);
               sameG = fl_eq (fa ! 1) (fb ! 1);
               sameB = fl_eq (fa ! 2) (fb ! 2);
               sameA = fl_eq (fa ! 3) (fb ! 3);
               sameMe = fl_eq (MetallicFactor (PbrMetallicRoughness a))
                          (MetallicFactor (PbrMetallicRoughness b));
               sameRo = fl_eq (RoughnessFactor (PbrMetallicRoughness a))
                          (RoughnessFactor (PbrMetallicRoughness b))
           in Inr (sameR \<and> sameG \<and> sameB \<and> sameA \<and> sameMe \<and> sameRo))"

text \<open>The scan of \<open>addMaterial\<close>: the index of the first equal entry, counting from \<open>i\<close>.\<close>

fun addMaterial_scan :: "GltfMaterial \<Rightarrow> GltfMaterial list \<Rightarrow> nat \<Rightarrow> panic + nat option" where
  "addMaterial_scan material [] i = Inr None"
| "addMaterial_scan material (m # ms) i =
     (case areMaterialsEqual m material of
        Inl e \<Rightarrow> Inl e
      | Inr True \<Rightarrow> Inr (Some i)
      | Inr False \<Rightarrow> addMaterial_scan material ms (Suc i))"

definition addMaterial :: "GltfMaterial \<Rightarrow> GltfMaterial list \<Rightarrow> panic + (int \<times> GltfMaterial list)" where
  "addMaterial material gltfMaterials =
     (case addMaterial_scan material gltfMaterials 0 of
        Inl e \<Rightarrow> Inl e
      | Inr (Some i) \<Rightarrow> Inr (int i, gltfMaterials)
      | Inr None \<Rightarrow>
          (let newMaterials = gltfMaterials @ [material]
           in Inr (int (length newMaterials) - 1, newMaterials)))"

section \<open>The typed buffer packer\<close>

text \<open>
  \<open>outBuf\<close> is the growing \<open>bytes.Buffer\<close>; each function returns the buffer it leaves
  behind together with its results.  The loop states are \<open>(outBuf, min, max)\<close>.
\<close>

definition addTriangle_step ::
  "byte list \<times> 32 word \<times> 32 word \<Rightarrow> Triangle \<Rightarrow> byte list \<times> 32 word \<times> 32 word" where
  "addTriangle_step st i =
     (case st of (outBuf, mn, mx) \<Rightarrow>
        let t = TriangleIndices i;
            outBuf = write_int32 outBuf (at0 t);
            outBuf = write_int32 outBuf (at1 t);
            outBuf = write_int32 outBuf (at2 t);
            mx = uint32_of_float (math_Max (float64_of_uint32 mx) (float64_of_int32 (at0 t)));
            mx = uint32_of_float (math_Max (float64_of_uint32 mx) (float64_of_int32 (at1 t)));
            mx = uint32_of_float (math_Max (float64_of_uint32 mx) (float64_of_int32 (at2 t)));
            mn = uint32_of_float (math_Min (float64_of_uint32 mn) (float64_of_int32 (at0 t)));
            mn = uint32_of_float (math_Min (float64_of_uint32 mn) (float64_of_int32 (at1 t)));
            mn = uint32_of_float (math_Min (float64_of_uint32 mn) (float64_of_int32 (at2 t)))
        in (outBuf, mn, mx))"

definition addTriangleArrayToBuffer ::
  "byte list \<Rightarrow> Triangle list \<Rightarrow> byte list \<times> 32 word \<times> 32 word" where
  "addTriangleArrayToBuffer outBuf indices = foldl addTriangle_step (outBuf, 100, 0) indices"

text \<open>
  \<open>math.Max\<close> and \<open>math.Min\<close> return one of their arguments, NaN or an infinity,
  so the conversions between \<open>float32\<close> and \<open>float64\<close> around them in
  \<open>float32(math.Max(float64(h), float64(x)))\<close> change nothing.
\<close>

definition addVector2_step ::
  "byte list \<times> Vector2 \<times> Vector2 \<Rightarrow> Vector2 \<Rightarrow> byte list \<times> Vector2 \<times> Vector2" where
  "addVector2_step st v =
     (case st of (outBuf, lowest, highest) \<Rightarrow>
        let outBuf = write_float32 outBuf (U v);
            outBuf = write_float32 outBuf (V v);
            highest = \<lparr> U = math_Max (U highest) (U v), V = math_Max (V highest) (V v) \<rparr>;
            lowest = \<lparr> U = math_Min (U lowest) (U v), V = math_Min (V lowest) (V v) \<rparr>
        in (outBuf, lowest, highest))"

definition addVector2ArrayToBuffer ::
  "byte list \<Rightarrow> Vector2 list \<Rightarrow> byte list \<times> Vector2 \<times> Vector2" where
  "addVector2ArrayToBuffer outBuf data =
     foldl addVector2_step
       (outBuf, \<lparr> U = Finite 100, V = Finite 100 \<rparr>,
        \<lparr> U = Finite (- 100), V = Finite (- 100) \<rparr>) data"

definition addVector3_step ::
  "byte list \<times> Vector3 \<times> Vector3 \<Rightarrow> Vector3 \<Rightarrow> byte list \<times> Vector3 \<times> Vector3" where
  "addVector3_step st v =
     (case st of (outBuf, lowest, highest) \<Rightarrow>
        let outBuf = write_float32 outBuf (X v);
            outBuf = write_float32 outBuf (Y v);
            outBuf = write_float32 outBuf (Z v);
            highest = \<lparr> X = math_Max (X highest) (X v), Y = math_Max (Y highest) (Y v),
                        Z = math_Max (Z highest) (Z v) \<rparr>;
            lowest = \<lparr> X = math_Min (X lowest) (X v), Y = math_Min (Y lowest) (Y v),
                       Z = math_Min (Z lowest) (Z v) \<rparr>
        in (outBuf, lowest, highest))"

definition addVector3ArrayToBuffer ::
  "byte list \<Rightarrow> Vector3 list \<Rightarrow> byte list \<times> Vector3 \<times> Vector3" where
  "addVector3ArrayToBuffer outBuf data =
     foldl addVector3_step
       (outBuf, \<lparr> X = Finite 100, Y = Finite 100, Z = Finite 100 \<rparr>,
        \<lparr> X = Finite (- 100), Y = Finite (- 100), Z = Finite (- 100) \<rparr>) data"

definition addVector4_step ::
  "byte list \<times> Vector4 \<times> Vector4 \<Rightarrow> Vector4 \<Rightarrow> byte list \<times> Vector4 \<times> Vector4" where
  "addVector4_step st v =
     (case st of (outBuf, lowest, highest) \<Rightarrow>
        let outBuf = write_float32 outBuf (R v);
            outBuf = write_float32 outBuf (G v);
            outBuf = write_float32 outBuf (B v);
            outBuf = write_float32 outBuf (A v);
            highest = \<lparr> R = math_Max (R highest) (R v), G = math_Max (G highest) (G v),
                        B = math_Max (B highest) (B v), A = math_Max (A highest) (A v) \<rparr>;
            lowest = \<lparr> R = math_Min (R lowest) (R v), G = math_Min (G lowest) (G v),
                       B = math_Min (B lowest) (B v), A = math_Min (A lowest) (A v) \<rparr>
        in (outBuf, lowest, highest))"

definition addVector4ArrayToBuffer ::
  "byte list \<Rightarrow> Vector4 list \<Rightarrow> byte list \<times> Vector4 \<times> Vector4" where
  "addVector4ArrayToBuffer outBuf data =
     foldl addVector4_step
       (outBuf, \<lparr> R = Finite 100, G = Finite 100, B = Finite 100, A = Finite 100 \<rparr>,
        \<lparr> R = Finite (- 100), G = Finite (- 100), B = Finite (- 100), A = Finite (- 100) \<rparr>) data"

text \<open>
  The \<open>getAccessorIndexFrom...\<close> functions return
  \<open>(accessorIndex, outBuf, gltfBufferViews, gltfAccessors)\<close>: the index and the three
  objects they update through pointers.
\<close>

type_synonym packed = "int \<times> byte list \<times> BufferView list \<times> Accessor list"

definition getAccessorIndexFromVector2 ::
  "byte list \<Rightarrow> Vector2 list \<Rightarrow> BufferView list \<Rightarrow> Accessor list \<Rightarrow> packed" where
  "getAccessorIndexFromVector2 outBuf vectors gltfBufferViews gltfAccessors =
     (let byteOffset = int (length outBuf) in
      case addVector2ArrayToBuffer outBuf vectors of (outBuf, mn, mx) \<Rightarrow>
        let byteLength = int (length outBuf) - byteOffset;
            verticesBufferView =
              \<lparr> Buffer = 0, BufferView.ByteLength = byteLength,
                BufferView.ByteOffset = byteOffset, ByteStride = 8, Target = 34962 \<rparr>;
            gltfBufferViews = gltfBufferViews @ [verticesBufferView];
            verticesAccessor =
              \<lparr> BufferView = int (length gltfBufferViews) - 1, Accessor.ByteOffset = 0,
                ComponentType = 5126, Count = int (length vectors), Type = ''VEC2'',
                Max_acc = [U mx, V mx], Min_acc = [U mn, V mn] \<rparr>;
            gltfAccessors = gltfAccessors @ [verticesAccessor]
        in (int (length gltfAccessors) - 1, outBuf, gltfBufferViews, gltfAccessors))"

definition getAccessorIndexFromVector3 ::
  "byte list \<Rightarrow> Vector3 list \<Rightarrow> BufferView list \<Rightarrow> Accessor list \<Rightarrow> packed" where
  "getAccessorIndexFromVector3 outBuf vectors gltfBufferViews gltfAccessors =
     (let byteOffset = int (length outBuf) in
      case addVector3ArrayToBuffer outBuf vectors of (outBuf, mn, mx) \<Rightarrow>
        let byteLength = int (length outBuf) - byteOffset;
            verticesBufferView =
              \<lparr> Buffer = 0, BufferView.ByteLength = byteLength,
                BufferView.ByteOffset = byteOffset, ByteStride = 12, Target = 34962 \<rparr>;
            gltfBufferViews = gltfBufferViews @ [verticesBufferView];
            verticesAccessor =
              \<lparr> BufferView = int (length gltfBufferViews) - 1, Accessor.ByteOffset = 0,
                ComponentType = 5126, Count = int (length vectors), Type = ''VEC3'',
                Max_acc = [X mx, Y mx, Z mx], Min_acc = [X mn, Y mn, Z mn] \<rparr>;
            gltfAccessors = gltfAccessors @ [verticesAccessor]
        in (int (length gltfAccessors) - 1, outBuf, gltfBufferViews, gltfAccessors))"

definition getAccessorIndexFromVector4 ::
  "byte list \<Rightarrow> Vector4 list \<Rightarrow> BufferView list \<Rightarrow> Accessor list \<Rightarrow> packed" where
  "getAccessorIndexFromVector4 outBuf vectors gltfBufferViews gltfAccessors =
     (let byteOffset = int (length outBuf) in
      case addVector4ArrayToBuffer outBuf vectors of (outBuf, mn, mx) \<Rightarrow>
        let byteLength = int (length outBuf) - byteOffset;
            verticesBufferView =
              \<lparr> Buffer = 0, BufferView.ByteLength = byteLength,
                BufferView.ByteOffset = byteOffset, ByteStride = 16, Target = 34962 \<rparr>;
            gltfBufferViews = gltfBufferViews @ [verticesBufferView];
            verticesAccessor =
              \<lparr> BufferView = int (length gltfBufferViews) - 1, Accessor.ByteOffset = 0,
                ComponentType = 5126, Count = int (length vectors), Type = ''VEC4'',
                Max_acc = [R mx, G mx, B mx, A mx], Min_acc = [R mn, G mn, B mn, A mn] \<rparr>;
            gltfAccessors = gltfAccessors @ [verticesAccessor]
        in (int (length gltfAccessors) - 1, outBuf, gltfBufferViews, gltfAccessors))"

text \<open>The index buffer view has no \<open>ByteStride\<close>: the field keeps its zero value.\<close>

definition getAccessorIndexFromIndices ::
  "byte list \<Rightarrow> Triangle list \<Rightarrow> BufferView list \<Rightarrow> Accessor list \<Rightarrow> packed" where
  "getAccessorIndexFromIndices outBuf indices gltfBufferViews gltfAccessors =
     (let byteOffset = int (length outBuf) in
      case addTriangleArrayToBuffer outBuf indices of (outBuf, mn, mx) \<Rightarrow>
        let byteLength = int (length outBuf) - byteOffset;
            indicesBufferView =
              \<lparr> Buffer = 0, BufferView.ByteLength = byteLength,
                BufferView.ByteOffset = byteOffset, ByteStride = 0, Target = 34963 \<rparr>;
            gltfBufferViews = gltfBufferViews @ [indicesBufferView];
            indicesAccessor =
              \<lparr> BufferView = int (length gltfBufferViews) - 1, Accessor.ByteOffset = 0,
                ComponentType = 5125, Count = int (length indices) * 3, Type = ''SCALAR'',
                Max_acc = [float32_of_uint32 mx], Min_acc = [float32_of_uint32 mn] \<rparr>;
            gltfAccessors = gltfAccessors @ [indicesAccessor]
        in (int (length gltfAccessors) - 1, outBuf, gltfBufferViews, gltfAccessors))"

section \<open>JSON encoding of the document\<close>

text \<open>
  \<open>encoding/json\<close> turns a struct into a JSON object with one member per field, named by
  the field's tag, in the order of declaration; a field tagged \<open>"-"\<close> is left out, and a
  field tagged \<open>omitempty\<close> is left out when it holds \<open>nil\<close>, \<open>0\<close>, \<open>false\<close>, \<open>""\<close>
  or an empty slice or map.  A map becomes an object with its keys sorted.  The functions
  below give the JSON value of each struct; the text of a JSON value is the encoder's
  business and is a parameter of the serialisers.
\<close>

datatype json = JNull | JBool bool | JInt int | JNum float | JStr string
  | JArr "json list" | JObj "(string \<times> json) list"

fun json_keys :: "json \<Rightarrow> string list" where
  "json_keys (JArr xs) = concat (map json_keys xs)"
| "json_keys (JObj kvs) = concat (map (\<lambda>(k, v). k # json_keys v) kvs)"
| "json_keys _ = []"

definition marshal_map :: "(string \<times> int) list \<Rightarrow> json" where
  "marshal_map m = JObj (map (\<lambda>(k, v). (k, JInt v)) (sort_key fst m))"

definition marshal_Accessor :: "Accessor \<Rightarrow> json" where
  "marshal_Accessor a =
     JObj ([(''bufferView'', JInt (BufferView a)),
            (''byteOffset'', JInt (Accessor.ByteOffset a)),
            (''componentType'', JInt (ComponentType a)),
            (''count'', JInt (Count a)),
            (''type'', JStr (Type a))]
           @ (if Max_acc a = [] then [] else [(''max'', JArr (map JNum (Max_acc a)))])
           @ (if Min_acc a = [] then [] else [(''min'', JArr (map JNum (Min_acc a)))]))"

definition marshal_Asset :: "Asset \<Rightarrow> json" where
  "marshal_Asset a =
     JObj ((if Generator a = [] then [] else [(''generator'', JStr (Generator a))])
           @ (if Version a = [] then [] else [(''version'', JStr (Version a))]))"

definition marshal_BufferView :: "BufferView \<Rightarrow> json" where
  "marshal_BufferView v =
     JObj ([(''buffer'', JInt (Buffer v)),
            (''byteLength'', JInt (BufferView.ByteLength v)),
            (''byteOffset'', JInt (BufferView.ByteOffset v))]
           @ (if ByteStride v = 0 then [] else [(''byteStride'', JInt (ByteStride v))])
           @ [(''target'', JInt (Target v))])"

definition marshal_GltfTexture :: "GltfTexture \<Rightarrow> json" where
  "marshal_GltfTexture t = JObj [(''source'', JInt (Source t))]"

definition marshal_GltfImage :: "GltfImage \<Rightarrow> json" where
  "marshal_GltfImage i =
     JObj (if GltfImage.URI i = [] then [] else [(''uri'', JStr (GltfImage.URI i))])"

text \<open>\<open>Bytes\<close> is tagged \<open>"-"\<close>.\<close>

definition marshal_GltfBuffer :: "GltfBuffer \<Rightarrow> json" where
  "marshal_GltfBuffer b =
     JObj ([(''byteLength'', JInt (GltfBuffer.ByteLength b))]
           @ (if GltfBuffer.URI b = [] then [] else [(''uri'', JStr (GltfBuffer.URI b))]))"

text \<open>\<open>BaseColorFactor\<close> is tagged \<open>"-"\<close>.\<close>

definition marshal_MaterialPbrMetallicRoughness :: "MaterialPbrMetallicRoughness \<Rightarrow> json" where
  "marshal_MaterialPbrMetallicRoughness p =
     JObj ((case BaseColorTexture p of
              None \<Rightarrow> []
            | Some t \<Rightarrow> [(''baseColorTexture'', marshal_map t)])
           @ [(''metallicFactor'', JNum (MetallicFactor p))]
           @ (if fl_eq (RoughnessFactor p) (Finite 0) then []
              else [(''roughnessFactor'', JNum (RoughnessFactor p))]))"

definition marshal_GltfMaterial :: "GltfMaterial \<Rightarrow> json" where
  "marshal_GltfMaterial m =
     JObj ((case AlphaMode m of None \<Rightarrow> [] | Some a \<Rightarrow> [(''alphaMode'', JStr a)])
           @ (if DoubleSided m then [(''doubleSided'', JBool True)] else [])
           @ [(''pbrMetallicRoughness'',
               marshal_MaterialPbrMetallicRoughness (PbrMetallicRoughness m))])"

definition marshal_MeshPrimitive :: "MeshPrimitive \<Rightarrow> json" where
  "marshal_MeshPrimitive p =
     JObj ((if Attributes p = [] then [] else [(''attributes'', marshal_map (Attributes p))])
           @ [(''indices'', JInt (Indices p)),
              (''material'', JInt (MeshPrimitive.Material p))])"

definition marshal_Mesh :: "Mesh \<Rightarrow> json" where
  "marshal_Mesh m =
     JObj ((if Mesh.Name m = [] then [] else [(''name'', JStr (Mesh.Name m))])
           @ (if Primitives m = [] then []
              else [(''primitives'', JArr (map marshal_MeshPrimitive (Primitives m)))]))"

definition marshal_Node :: "Node \<Rightarrow> json" where
  "marshal_Node n =
     JObj ([(''mesh'', JInt (Node.Mesh n))]
           @ (if Node.Name n = [] then [] else [(''name'', JStr (Node.Name n))]))"

definition marshal_Scene :: "Scene \<Rightarrow> json" where
  "marshal_Scene s =
     JObj (if Scene.Nodes s = [] then [] else [(''nodes'', JArr (map JInt (Scene.Nodes s)))])"

definition omitempty_list :: "string \<Rightarrow> ('a \<Rightarrow> json) \<Rightarrow> 'a list \<Rightarrow> (string \<times> json) list" where
  "omitempty_list k f xs = (if xs = [] then [] else [(k, JArr (map f xs))])"

definition marshal_GlTF :: "GlTF \<Rightarrow> json" where
  "marshal_GlTF d =
     JObj (omitempty_list ''accessors'' marshal_Accessor (Accessors d)
           @ [(''asset'', marshal_Asset (Asset d))]
           @ omitempty_list ''buffers'' marshal_GltfBuffer (Buffers d)
           @ omitempty_list ''bufferViews'' marshal_BufferView (BufferViews d)
           @ omitempty_list ''images'' marshal_GltfImage (Images d)
           @ omitempty_list ''materials'' marshal_GltfMaterial (Materials d)
           @ omitempty_list ''meshes'' marshal_Mesh (GlTF.Meshes d)
           @ omitempty_list ''nodes'' marshal_Node (GlTF.Nodes d)
           @ [(''scene'', JInt (GlTF.Scene d))]
           @ omitempty_list ''scenes'' marshal_Scene (Scenes d)
           @ omitempty_list ''textures'' marshal_GltfTexture (Textures d))"

section \<open>The container serialisers\<close>

definition bytes_of :: "string \<Rightarrow> byte list" where
  "bytes_of s = map of_char s"

text \<open>\<open>base64.StdEncoding.EncodeToString\<close>: the standard alphabet, padded with \<open>=\<close>.\<close>

definition base64_digit :: "nat \<Rightarrow> char" where
  "base64_digit n =
     ''ABCDEFGHIJKLMNOPQRSTUVWXYZabcdefghijklmnopqrstuvwxyz0123456789+/'' ! (n mod 64)"

fun base64_EncodeToString :: "byte list \<Rightarrow> string" where
  "base64_EncodeToString (a # b # c # rest) =
     (let n = unat a * 65536 + unat b * 256 + unat c
      in [base64_digit (n div 262144), base64_digit (n div 4096),
          base64_digit (n div 64), base64_digit n] @ base64_EncodeToString rest)"
| "base64_EncodeToString [a, b] =
     (let n = unat a * 65536 + unat b * 256
      in [base64_digit (n div 262144), base64_digit (n div 4096),
          base64_digit (n div 64), CHR ''=''])"
| "base64_EncodeToString [a] =
     (let n = unat a * 65536
      in [base64_digit (n div 262144), base64_digit (n div 4096), CHR ''='', CHR ''=''])"
| "base64_EncodeToString [] = []"

text \<open>The loop that pads the binary chunk: one null byte while the counter is positive.\<close>

function write_nulls :: "32 word \<Rightarrow> byte list \<Rightarrow> byte list" where
  "write_nulls outBufNullsNeeded outData =
     (if outBufNullsNeeded > 0 then write_nulls (outBufNullsNeeded - 1) (outData @ [0])
      else outData)"
  by pat_completeness auto
termination
  by (relation "measure (\<lambda>(n, out). unat n)")
     (auto simp: unat_minus_one word_greater_zero_iff unat_gt_0 intro!: diff_less)

declare write_nulls.simps [simp del]

text \<open>
  \<open>SerializeBinaryGlTF\<close>.  \<open>json_Marshal\<close> is the text \<open>json.Marshal\<close> gives for a JSON
  value.  \<open>gltfDoc.Buffers[0]\<close> panics on a document without buffers.  All sizes are
  \<open>uint32\<close>.
\<close>

definition SerializeBinaryGlTF :: "(json \<Rightarrow> byte list) \<Rightarrow> GlTF \<Rightarrow> panic + byte list" where
  "SerializeBinaryGlTF json_Marshal gltfDoc =
     (case Buffers gltfDoc of
        [] \<Rightarrow> Inl IndexOutOfRange
      | buffer0 # _ \<Rightarrow>
          let outBuf = Bytes buffer0;
              outJSON = json_Marshal (marshal_GlTF gltfDoc);
              outJSONSize = (word_of_nat (length outJSON) :: 32 word);
              outJSONPaddingNeeded = (4 - (outJSONSize AND 3)) AND 3;
              outJSONSize = outJSONSize + outJSONPaddingNeeded;
              outBufSize = (word_of_nat (length outBuf) :: 32 word);
              outBufNullsNeeded = (4 - (outBufSize AND 3)) AND 3;
              outBufSize = outBufSize + outBufNullsNeeded;
              glbSize = (0 :: 32 word) + 4 + 4 + 4 + 4 + 4 + outJSONSize + 4 + 4 + outBufSize;
              outData = [];
              outData = outData @ bytes_of ''glTF'';
              outData = outData @ le32 2;
              outData = outData @ le32 glbSize;
              outData = outData @ le32 outJSONSize;
              outData = outData @ bytes_of ''JSON'';
              outData = outData @ outJSON;
              outData = outData @ replicate (unat outJSONPaddingNeeded) (of_char CHR '' '');
              outData = outData @ le32 outBufSize;
              outData = outData @ bytes_of ''BIN'' @ [0];
              outData = outData @ outBuf;
              outData = write_nulls outBufNullsNeeded outData
          in Inr outData)"

text \<open>\<open>SerializeEmbeddedGlTF\<close>; \<open>json_MarshalIndent\<close> is the indented text of a JSON value.\<close>

definition SerializeEmbeddedGlTF :: "(json \<Rightarrow> byte list) \<Rightarrow> GlTF \<Rightarrow> panic + byte list" where
  "SerializeEmbeddedGlTF json_MarshalIndent gltfDoc =
     (case Buffers gltfDoc of
        [] \<Rightarrow> Inl IndexOutOfRange
      | buffer0 # buffers \<Rightarrow>
          let outBuf = Bytes buffer0;
              buffer0 = buffer0\<lparr> GltfBuffer.URI :=
                          ''data:application/gltf-buffer;base64,'' @ base64_EncodeToString outBuf \<rparr>;
              gltfDoc = gltfDoc\<lparr> Buffers := buffer0 # buffers \<rparr>
          in Inr (json_MarshalIndent (marshal_GlTF gltfDoc)))"

section \<open>The document assembler\<close>

definition getVertices :: "Geometry \<Rightarrow> Vector3 list" where
  "getVertices mesh = foldl (\<lambda>results m. results @ [Position m]) [] (Vertices mesh)"

definition getNormals :: "Geometry \<Rightarrow> Vector3 list" where
  "getNormals mesh = foldl (\<lambda>results m. results @ [Normal m]) [] (Vertices mesh)"

definition getUVCoords :: "Geometry \<Rightarrow> Vector2 list" where
  "getUVCoords mesh = foldl (\<lambda>results m. results @ [UV m]) [] (Vertices mesh)"

definition getVertexColors :: "Geometry \<Rightarrow> Vector4 list" where
  "getVertexColors mesh = foldl (\<lambda>results m. results @ [Color m]) [] (Vertices mesh)"

text \<open>
  The variables the first loop of \<open>ToGltfDoc\<close> updates; \<open>printed\<close> collects the lines
  the loop writes with \<open>fmt.Println\<close>.  The global \<open>vertexColors\<close> is a parameter.
\<close>

record assembler =
  gltfBufferViews :: "BufferView list"
  gltfAccessors :: "Accessor list"
  gltfMaterials :: "GltfMaterial list"
  outBuf :: "byte list"
  associations :: "meshInfoAssociation list"
  printed :: "string list"

definition ToGltfDoc_mesh :: "bool \<Rightarrow> assembler \<Rightarrow> Geometry \<Rightarrow> panic + assembler" where
  "ToGltfDoc_mesh vertexColors st mesh =
     (let thisMaterial = gltfMaterial (Geometry.Material mesh);
          uvAccessorIndex = - 1;
          vertexColorAccessorIndex = - 1
      in
      case getAccessorIndexFromIndices (outBuf st) (Faces mesh)
             (gltfBufferViews st) (gltfAccessors st) of
        (meshIndicesAccessorIndex, buf, bvs, accs) \<Rightarrow>
      case getAccessorIndexFromVector3 buf (getVertices mesh) bvs accs of
        (meshVertexAccessorIndex, buf, bvs, accs) \<Rightarrow>
      case getAccessorIndexFromVector3 buf (getNormals mesh) bvs accs of
        (meshNormalAccessorIndex, buf, bvs, accs) \<Rightarrow>
      case (if \<not> vertexColors then
              (case getAccessorIndexFromVector2 buf (getUVCoords mesh) bvs accs of
                 (i, buf, bvs, accs) \<Rightarrow>
                   (i, vertexColorAccessorIndex, buf, bvs, accs,
                    thisMaterial\<lparr> PbrMetallicRoughness :=
                      (PbrMetallicRoughness thisMaterial)
                        \<lparr> BaseColorTexture := Some (AList.update ''index'' 0 []) \<rparr> \<rparr>))
            else
              (case getAccessorIndexFromVector4 buf (getVertexColors mesh) bvs accs of
                 (i, buf, bvs, accs) \<Rightarrow>
                   (uvAccessorIndex, i, buf, bvs, accs,
                    thisMaterial\<lparr> PbrMetallicRoughness :=
                      (PbrMetallicRoughness thisMaterial)
                        \<lparr> BaseColorTexture := None \<rparr> \<rparr>))) of
        (uvAccessorIndex, vertexColorAccessorIndex, buf, bvs, accs, thisMaterial) \<Rightarrow>
      let thisMaterial =
            thisMaterial\<lparr> PbrMetallicRoughness :=
              (PbrMetallicRoughness thisMaterial)\<lparr> BaseColorFactor := [Finite 1, Finite 1, Finite 1, Finite 1] \<rparr> \<rparr>
      in
      case addMaterial thisMaterial (gltfMaterials st) of
        Inl e \<Rightarrow> Inl e
      | Inr (materialIndex, newGltfMaterials) \<Rightarrow>
          let accessorAssociation =
                \<lparr> MeshIndicesAccessorIndex = meshIndicesAccessorIndex,
                  MeshVerticesAccessorIndex = meshVertexAccessorIndex,
                  MeshNormalsAccessorIndex = meshNormalAccessorIndex,
                  MeshMaterialIndex = materialIndex,
                  MeshUVAccessorIndex = 0,
                  MeshVertexColorAccessorIndex = 0 \<rparr>;
              accessorAssociation =
                (if \<not> vertexColors
                 then accessorAssociation\<lparr> MeshUVAccessorIndex := uvAccessorIndex \<rparr>
                 else accessorAssociation
                        \<lparr> MeshVertexColorAccessorIndex := vertexColorAccessorIndex \<rparr>)
          in Inr \<lparr> gltfBufferViews = bvs,
                   gltfAccessors = accs,
                   gltfMaterials = newGltfMaterials,
                   outBuf = buf,
                   associations = associations st @ [accessorAssociation],
                   printed = (if length buf mod 4 \<noteq> 0
                              then printed st @ ['' this should't happen. '']
                              else printed st) \<rparr>)"

fun ToGltfDoc_loop :: "bool \<Rightarrow> assembler \<Rightarrow> Geometry list \<Rightarrow> panic + assembler" where
  "ToGltfDoc_loop vertexColors st [] = Inr st"
| "ToGltfDoc_loop vertexColors st (mesh # meshes) =
     (case ToGltfDoc_mesh vertexColors st mesh of
        Inl e \<Rightarrow> Inl e
      | Inr st' \<Rightarrow> ToGltfDoc_loop vertexColors st' meshes)"

text \<open>The body of the second loop: the primitive of one association.\<close>

definition ToGltfDoc_primitive :: "bool \<Rightarrow> meshInfoAssociation \<Rightarrow> MeshPrimitive" where
  "ToGltfDoc_primitive vertexColors assoc =
     (let meshPrimitiveAttributes = [];
          meshPrimitiveAttributes =
            AList.update ''POSITION'' (MeshVerticesAccessorIndex assoc) meshPrimitiveAttributes;
          meshPrimitiveAttributes =
            AList.update ''NORMAL'' (MeshNormalsAccessorIndex assoc) meshPrimitiveAttributes;
          meshPrimitiveAttributes =
            (if \<not> vertexColors
             then AList.update ''TEXCOORD_0'' (MeshUVAccessorIndex assoc) meshPrimitiveAttributes
             else AList.update ''COLOR_0'' (MeshVertexColorAccessorIndex assoc)
                    meshPrimitiveAttributes)
      in \<lparr> Attributes = meshPrimitiveAttributes,
           Indices = MeshIndicesAccessorIndex assoc,
           MeshPrimitive.Material = MeshMaterialIndex assoc \<rparr>)"

definition ToGltfDoc :: "bool \<Rightarrow> Model \<Rightarrow> byte list \<Rightarrow> panic + GlTF" where
  "ToGltfDoc vertexColors model atlas =
     (case ToGltfDoc_loop vertexColors
             \<lparr> gltfBufferViews = [], gltfAccessors = [], gltfMaterials = [], outBuf = [],
               associations = [], printed = [] \<rparr>
             (Model.Meshes model) of
        Inl e \<Rightarrow> Inl e
      | Inr st \<Rightarrow>
          let meshPrimitives = map (ToGltfDoc_primitive vertexColors) (associations st);
              gltfMeshes = [] @ [\<lparr> Mesh.Name = [], Primitives = meshPrimitives \<rparr>];
              gltfNodes = [] @ [\<lparr> Node.Mesh = int (length gltfMeshes) - 1, Node.Name = [] \<rparr>];
              nodeList = [] @ [int (length gltfNodes) - 1];
              scene = \<lparr> Scene.Nodes = nodeList \<rparr>;
              gltfScenes = [] @ [scene];
              rootSceneIndex = int (length gltfScenes) - 1;
              gltfBuffer = \<lparr> GltfBuffer.ByteLength = int (length (outBuf st)),
                             Bytes = outBuf st, GltfBuffer.URI = [] \<rparr>;
              gltfBuffers = [] @ [gltfBuffer];
              gltfDoc =
                \<lparr> Accessors = gltfAccessors st,
                  Asset = \<lparr> Generator = ''gltf-go, https://github.com/naikrovek/gltf-go/'',
                            Version = ''2.0'' \<rparr>,
                  Buffers = gltfBuffers,
                  BufferViews = gltfBufferViews st,
                  Images = [],
                  Materials = gltfMaterials st,
                  GlTF.Meshes = gltfMeshes,
                  GlTF.Nodes = gltfNodes,
                  GlTF.Scene = rootSceneIndex,
                  Scenes = gltfScenes,
                  Textures = [] \<rparr>
          in Inr (if \<not> vertexColors
                  then gltfDoc\<lparr> Images := [\<lparr> GltfImage.URI =
                                   ''data:image/png;base64,'' @ base64_EncodeToString atlas \<rparr>],
                                Textures := [\<lparr> Source = 0 \<rparr>] \<rparr>
                  else gltfDoc))"

section \<open>The mesh consolidator\<close>

definition mapRange :: "float64 \<Rightarrow> float64 \<Rightarrow> float64 \<Rightarrow> float64 \<Rightarrow> float64 \<Rightarrow> float64" where
  "mapRange x inMin inMax outMin outMax =
     f64_add (f64_div (f64_mul (f64_sub x inMin) (f64_sub outMax outMin)) (f64_sub inMax inMin))
       outMin"

text \<open>
  \<open>image.RGBA\<close>: \<open>Pix\<close> holds four bytes per pixel, row after row; \<open>Width\<close> and \<open>Height\<close>
  are the bounds of the rectangle, whose corner is the origin.  \<open>Set\<close> ignores a point
  outside the rectangle.
\<close>

record color_RGBA =
  R :: byte
  G :: byte
  B :: byte
  A :: byte

record image_RGBA =
  Pix :: "byte list"
  Stride :: nat
  Width :: nat
  Height :: nat

definition image_NewRGBA :: "nat \<Rightarrow> nat \<Rightarrow> image_RGBA" where
  "image_NewRGBA w h = \<lparr> Pix = replicate (4 * w * h) 0, Stride = 4 * w, Width = w, Height = h \<rparr>"

definition image_Set :: "image_RGBA \<Rightarrow> nat \<Rightarrow> nat \<Rightarrow> color_RGBA \<Rightarrow> image_RGBA" where
  "image_Set img x y c =
     (if \<not> (x < Width img \<and> y < Height img) then img
      else let i = y * Stride img + x * 4
           in img\<lparr> Pix := (Pix img)[i := color_RGBA.R c, i + 1 := color_RGBA.G c,
                                     i + 2 := color_RGBA.B c, i + 3 := color_RGBA.A c] \<rparr>)"

definition image_RGBAAt :: "image_RGBA \<Rightarrow> nat \<Rightarrow> nat \<Rightarrow> color_RGBA" where
  "image_RGBAAt img x y =
     (if \<not> (x < Width img \<and> y < Height img)
      then \<lparr> R = 0, G = 0, B = 0, A = 0 \<rparr>
      else let i = y * Stride img + x * 4
           in \<lparr> R = Pix img ! i, G = Pix img ! (i + 1), B = Pix img ! (i + 2),
                A = Pix img ! (i + 3) \<rparr>)"

text \<open>The triangle of a source mesh, its indices moved by \<open>vertexOffset\<close> (\<open>int32\<close> addition).\<close>

definition offset_triangle :: "32 word \<Rightarrow> Triangle \<Rightarrow> Triangle" where
  "offset_triangle vertexOffset triangle =
     \<lparr> TriangleIndices =
         (at0 (TriangleIndices triangle) + vertexOffset,
          at1 (TriangleIndices triangle) + vertexOffset,
          at2 (TriangleIndices triangle) + vertexOffset) \<rparr>"

text \<open>
  The loop states are \<open>(finalVertices, finalFaces, img)\<close> in the texture-atlas case and
  \<open>(finalVertices, finalFaces)\<close> in the vertex-colour case; the inner loops append the
  changed copies of the vertices and triangles one by one.
\<close>

definition atlas_color :: "Material \<Rightarrow> color_RGBA" where
  "atlas_color material =
     (let dR = mapRange (at0 (DiffuseColor material)) (Finite 0) (Finite 1) (f64r 0.04) (f64r 0.85);
          dG = mapRange (at1 (DiffuseColor material)) (Finite 0) (Finite 1) (f64r 0.04) (f64r 0.85);
          dB = mapRange (at2 (DiffuseColor material)) (Finite 0) (Finite 1) (f64r 0.04) (f64r 0.85);
          r = uint8_of_float (f64_mul dR (Finite 255));
          g = uint8_of_float (f64_mul dG (Finite 255));
          b = uint8_of_float (f64_mul dB (Finite 255));
          a = uint8_of_float (f32_mul (Opacity material) (Finite 255))
      in \<lparr> R = r, G = g, B = b, A = a \<rparr>)"

definition atlas_uv :: "nat \<Rightarrow> nat \<Rightarrow> Vector2" where
  "atlas_uv x y =
     \<lparr> U = f32_add (f32_div (f32r (real x)) (Finite 32)) (f32r (0.5 / 32)),
       V = f32_add (f32_div (f32r (real y)) (Finite 32)) (f32r (0.5 / 32)) \<rparr>"

definition optimizeModel_atlas_step ::
  "Vertex list \<times> Triangle list \<times> image_RGBA \<Rightarrow> nat \<times> Geometry
     \<Rightarrow> Vertex list \<times> Triangle list \<times> image_RGBA" where
  "optimizeModel_atlas_step st im =
     (case (st, im) of ((finalVertices, finalFaces, img), (i, mesh)) \<Rightarrow>
        let vertexOffset = (word_of_nat (length finalVertices) :: 32 word);
            color = atlas_color (Geometry.Material mesh);
            x = i mod 32;
            y = i div 32;
            img = image_Set img x y color;
            finalVertices =
              foldl (\<lambda>vs vertex. vs @ [vertex\<lparr> UV := atlas_uv x y \<rparr>])
                finalVertices (Vertices mesh);
            finalFaces =
              foldl (\<lambda>fs triangle. fs @ [offset_triangle vertexOffset triangle])
                finalFaces (Faces mesh)
        in (finalVertices, finalFaces, img))"

definition remap_vertex_color :: "Vertex \<Rightarrow> Vertex" where
  "remap_vertex_color vertex =
     (let vertex = vertex\<lparr> Color := (Color vertex)
            \<lparr> Vector4.R := float32_of_float64
                (mapRange (Vector4.R (Color vertex)) (Finite 0) (Finite 1) (f64r 0.04) (f64r 0.85)) \<rparr> \<rparr>;
          vertex = vertex\<lparr> Color := (Color vertex)
            \<lparr> Vector4.G := float32_of_float64
                (mapRange (Vector4.G (Color vertex)) (Finite 0) (Finite 1) (f64r 0.04) (f64r 0.85)) \<rparr> \<rparr>;
          vertex = vertex\<lparr> Color := (Color vertex)
            \<lparr> Vector4.B := float32_of_float64
                (mapRange (Vector4.B (Color vertex)) (Finite 0) (Finite 1) (f64r 0.04) (f64r 0.85)) \<rparr> \<rparr>
      in vertex)"

definition optimizeModel_color_step ::
  "Vertex list \<times> Triangle list \<Rightarrow> Geometry \<Rightarrow> Vertex list \<times> Triangle list" where
  "optimizeModel_color_step st mesh =
     (case st of (finalVertices, finalFaces) \<Rightarrow>
        let vertexOffset = (word_of_nat (length finalVertices) :: 32 word);
            finalVertices =
              foldl (\<lambda>vs vertex. vs @ [remap_vertex_color vertex]) finalVertices (Vertices mesh);
            finalFaces =
              foldl (\<lambda>fs triangle. fs @ [offset_triangle vertexOffset triangle])
                finalFaces (Faces mesh)
        in (finalVertices, finalFaces))"

text \<open>
  \<open>optimizeModel\<close>.  \<open>png_Encode\<close> is the PNG encoder; the result is the new model and
  the bytes written to \<open>imageData\<close>.
\<close>

definition optimizeModel ::
  "(image_RGBA \<Rightarrow> byte list) \<Rightarrow> bool \<Rightarrow> Model \<Rightarrow> Model \<times> byte list" where
  "optimizeModel png_Encode vertexColors meshes =
     (case (if \<not> vertexColors then
              (case foldl optimizeModel_atlas_step ([], [], image_NewRGBA 32 32)
                      (enumerate 0 (Model.Meshes meshes)) of
                 (finalVertices, finalFaces, img) \<Rightarrow>
                   (finalVertices, finalFaces, png_Encode img))
            else
              (case foldl optimizeModel_color_step ([], []) (Model.Meshes meshes) of
                 (finalVertices, finalFaces) \<Rightarrow> (finalVertices, finalFaces, []))) of
        (finalVertices, finalFaces, imageData) \<Rightarrow>
          (\<lparr> Model.Meshes =
               [\<lparr> Vertices = finalVertices,
                  Faces = finalFaces,
                  Geometry.Material =
                    \<lparr> AmbientColor = (Finite 1, Finite 1, Finite 1),
                      DiffuseColor = (Finite 1, Finite 1, Finite 1),
                      SpecularColor = (Finite 1, Finite 1, Finite 1),
                      SpecularPower = Finite 128,
                      EmissiveColor = (Finite 1, Finite 1, Finite 1),
                      Opacity = Finite 1 \<rparr> \<rparr>] \<rparr>,
           imageData))"

section \<open>Auxiliary notions for the properties\<close>

text \<open>The bytes one element contributes to the buffer.\<close>

definition triangle_bytes :: "Triangle \<Rightarrow> byte list" where
  "triangle_bytes t =
     le32 (at0 (TriangleIndices t)) @ le32 (at1 (TriangleIndices t)) @ le32 (at2 (TriangleIndices t))"

definition vector2_bytes :: "Vector2 \<Rightarrow> byte list" where
  "vector2_bytes v = le32 (f32_bits (U v)) @ le32 (f32_bits (V v))"

definition vector3_bytes :: "Vector3 \<Rightarrow> byte list" where
  "vector3_bytes v = le32 (f32_bits (X v)) @ le32 (f32_bits (Y v)) @ le32 (f32_bits (Z v))"

definition vector4_bytes :: "Vector4 \<Rightarrow> byte list" where
  "vector4_bytes v =
     le32 (f32_bits (Vector4.R v)) @ le32 (f32_bits (Vector4.G v))
     @ le32 (f32_bits (Vector4.B v)) @ le32 (f32_bits (Vector4.A v))"

text \<open>The bounds \<open>addTriangleArrayToBuffer\<close> returns; they do not depend on the buffer.\<close>

definition indices_max :: "Triangle list \<Rightarrow> 32 word" where
  "indices_max ts = snd (snd (addTriangleArrayToBuffer [] ts))"

definition indices_min :: "Triangle list \<Rightarrow> 32 word" where
  "indices_min ts = fst (snd (addTriangleArrayToBuffer [] ts))"

text \<open>The accessor a packer call added: the one at the index it returns.\<close>

definition accessor_of :: "packed \<Rightarrow> Accessor" where
  "accessor_of p = (case p of (i, buf, bvs, accs) \<Rightarrow> accs ! nat i)"

text \<open>
  Notions used to state and prove the properties of the material deduplicator and of
  the assembler: the comparison the deduplicator makes, the material and the bytes, buffer
  views and association one mesh adds, the invariant of the first loop of
  \<open>ToGltfDoc\<close>, and the document the function builds from the final loop state.
\<close>

definition same_factors :: "GltfMaterial \<Rightarrow> GltfMaterial \<Rightarrow> bool" where
  "same_factors a b =
     (fl_eq (BaseColorFactor (PbrMetallicRoughness a) ! 0)
            (BaseColorFactor (PbrMetallicRoughness b) ! 0)
    \<and> fl_eq (BaseColorFactor (PbrMetallicRoughness a) ! 1)
            (BaseColorFactor (PbrMetallicRoughness b) ! 1)
    \<and> fl_eq (BaseColorFactor (PbrMetallicRoughness a) ! 2)
            (BaseColorFactor (PbrMetallicRoughness b) ! 2)
    \<and> fl_eq (BaseColorFactor (PbrMetallicRoughness a) ! 3)
            (BaseColorFactor (PbrMetallicRoughness b) ! 3)
    \<and> fl_eq (MetallicFactor (PbrMetallicRoughness a)) (MetallicFactor (PbrMetallicRoughness b))
    \<and> fl_eq (RoughnessFactor (PbrMetallicRoughness a))
            (RoughnessFactor (PbrMetallicRoughness b)))"

definition four_factors :: "GltfMaterial \<Rightarrow> bool" where
  "four_factors m = (length (BaseColorFactor (PbrMetallicRoughness m)) = 4)"

definition rough_of :: "Material \<Rightarrow> float64" where
  "rough_of material = f64_sub (Finite 1) (f64_div (SpecularPower material) (Finite 128))"

definition assembled_material :: "bool \<Rightarrow> Material \<Rightarrow> GltfMaterial" where
  "assembled_material vertexColors material =
     (gltfMaterial material)\<lparr> PbrMetallicRoughness :=
        (PbrMetallicRoughness (gltfMaterial material))
          \<lparr> BaseColorTexture := (if vertexColors then None else Some [(''index'', 0)]),
            BaseColorFactor := [Finite 1, Finite 1, Finite 1, Finite 1] \<rparr> \<rparr>"

definition mesh_bytes :: "bool \<Rightarrow> Geometry \<Rightarrow> byte list" where
  "mesh_bytes vertexColors mesh =
     concat (map triangle_bytes (Faces mesh))
     @ concat (map vector3_bytes (map Position (Vertices mesh)))
     @ concat (map vector3_bytes (map Normal (Vertices mesh)))
     @ (if vertexColors then concat (map vector4_bytes (map Color (Vertices mesh)))
        else concat (map vector2_bytes (map UV (Vertices mesh))))"

definition mesh_views :: "bool \<Rightarrow> nat \<Rightarrow> Geometry \<Rightarrow> BufferView list" where
  "mesh_views vertexColors off mesh =
     (let f = length (Faces mesh); v = length (Vertices mesh) in
      [\<lparr> Buffer = 0, BufferView.ByteLength = 12 * int f,
         BufferView.ByteOffset = int off, ByteStride = 0, Target = 34963 \<rparr>,
       \<lparr> Buffer = 0, BufferView.ByteLength = 12 * int v,
         BufferView.ByteOffset = int (off + 12 * f), ByteStride = 12, Target = 34962 \<rparr>,
       \<lparr> Buffer = 0, BufferView.ByteLength = 12 * int v,
         BufferView.ByteOffset = int (off + 12 * f + 12 * v), ByteStride = 12, Target = 34962 \<rparr>,
       (if vertexColors
        then \<lparr> Buffer = 0, BufferView.ByteLength = 16 * int v,
               BufferView.ByteOffset = int (off + 12 * f + 12 * v + 12 * v), ByteStride = 16,
               Target = 34962 \<rparr>
        else \<lparr> Buffer = 0, BufferView.ByteLength = 8 * int v,
               BufferView.ByteOffset = int (off + 12 * f + 12 * v + 12 * v), ByteStride = 8,
               Target = 34962 \<rparr>)])"

definition mesh_assoc :: "bool \<Rightarrow> int \<Rightarrow> int \<Rightarrow> meshInfoAssociation" where
  "mesh_assoc vertexColors n materialIndex =
     \<lparr> MeshIndicesAccessorIndex = n,
       MeshVerticesAccessorIndex = n + 1,
       MeshNormalsAccessorIndex = n + 2,
       MeshMaterialIndex = materialIndex,
       MeshUVAccessorIndex = (if vertexColors then 0 else n + 3),
       MeshVertexColorAccessorIndex = (if vertexColors then n + 3 else 0) \<rparr>"

definition loop_inv :: "bool \<Rightarrow> assembler \<Rightarrow> Geometry list \<Rightarrow> bool" where
  "loop_inv vc st ps =
     (\<exists>srcs. gltfMaterials st = map (assembled_material vc) srcs
        \<and> (\<forall>j1 < length srcs. \<forall>j2 < length srcs.
              j1 \<noteq> j2 \<longrightarrow> \<not> fl_eq (rough_of (srcs ! j1)) (rough_of (srcs ! j2)))
        \<and> length (associations st) = length ps
        \<and> (\<forall>k < length ps. \<exists>j < length srcs.
              MeshMaterialIndex (associations st ! k) = int j
            \<and> rough_of (srcs ! j) = rough_of (Geometry.Material (ps ! k)))
        \<and> (\<forall>k1 < length ps. \<forall>k2 < length ps. k1 \<noteq> k2 \<longrightarrow>
              (MeshMaterialIndex (associations st ! k1) = MeshMaterialIndex (associations st ! k2))
              = fl_eq (rough_of (Geometry.Material (ps ! k1)))
                  (rough_of (Geometry.Material (ps ! k2))))
        \<and> 4 dvd length (outBuf st)
        \<and> (\<forall>v \<in> set (gltfBufferViews st). 4 dvd BufferView.ByteOffset v)
        \<and> printed st = [])"

definition assembler_init :: assembler where
  "assembler_init = \<lparr> gltfBufferViews = [], gltfAccessors = [], gltfMaterials = [], outBuf = [],
               associations = [], printed = [] \<rparr>"

definition assembled_doc :: "bool \<Rightarrow> assembler \<Rightarrow> byte list \<Rightarrow> GlTF" where
  "assembled_doc vc st atlas =
     \<lparr> Accessors = gltfAccessors st,
       Asset = \<lparr> Generator = ''gltf-go, https://github.com/naikrovek/gltf-go/'',
                 Version = ''2.0'' \<rparr>,
       Buffers = [\<lparr> GltfBuffer.ByteLength = int (length (outBuf st)),
                    Bytes = outBuf st, GltfBuffer.URI = [] \<rparr>],
       BufferViews = gltfBufferViews st,
       Images = (if vc then []
                 else [\<lparr> GltfImage.URI =
                          ''data:image/png;base64,'' @ base64_EncodeToString atlas \<rparr>]),
       Materials = gltfMaterials st,
       GlTF.Meshes = [\<lparr> Mesh.Name = [],
                        Primitives = map (ToGltfDoc_primitive vc) (associations st) \<rparr>],
       GlTF.Nodes = [\<lparr> Node.Mesh = 0, Node.Name = [] \<rparr>],
       GlTF.Scene = 0,
       Scenes = [\<lparr> Scene.Nodes = [0] \<rparr>],
       Textures = (if vc then [] else [\<lparr> Source = 0 \<rparr>]) \<rparr>"


text \<open>The material index of every primitive of a document, in order.\<close>

definition primitive_materials :: "GlTF \<Rightarrow> int list" where
  "primitive_materials doc =
     map MeshPrimitive.Material (concat (map Primitives (GlTF.Meshes doc)))"

text \<open>The padding that brings a length to the next multiple of 4.\<close>

definition pad4 :: "nat \<Rightarrow> nat" where
  "pad4 n = (4 - n mod 4) mod 4"

text \<open>The number four bytes hold in little-endian order.\<close>

definition le32_value :: "byte list \<Rightarrow> nat" where
  "le32_value bs =
     unat (bs ! 0) + 256 * unat (bs ! 1) + 65536 * unat (bs ! 2) + 16777216 * unat (bs ! 3)"

section \<open>Properties\<close>

subsection \<open>Comparisons, \<open>math.Max\<close> and \<open>math.Min\<close>\<close>



lemma fl_le_NaN [simp]: "\<not> fl_le NaN a" "\<not> fl_le a NaN"
  by (cases a, simp_all)+





subsection \<open>The packer, step by step\<close>

lemma length_le32 [simp]: "length (le32 w) = 4"
  by (simp add: le32_def)

lemma length_concat_const:
  "(\<And>x. x \<in> set xs \<Longrightarrow> length (f x) = k) \<Longrightarrow> length (concat (map f xs)) = k * length xs"
  by (induction xs) auto

lemma length_triangle_bytes [simp]: "length (concat (map triangle_bytes ts)) = 12 * length ts"
  by (rule length_concat_const) (simp add: triangle_bytes_def)

lemma length_vector2_bytes [simp]: "length (concat (map vector2_bytes ts)) = 8 * length ts"
  by (rule length_concat_const) (simp add: vector2_bytes_def)

lemma length_vector3_bytes [simp]: "length (concat (map vector3_bytes ts)) = 12 * length ts"
  by (rule length_concat_const) (simp add: vector3_bytes_def)

lemma length_vector4_bytes [simp]: "length (concat (map vector4_bytes ts)) = 16 * length ts"
  by (rule length_concat_const) (simp add: vector4_bytes_def)

lemma addTriangle_fold_buf:
  "fst (foldl addTriangle_step (buf, mn, mx) ts) = buf @ concat (map triangle_bytes ts)"
  by (induction ts arbitrary: buf mn mx)
     (simp_all add: addTriangle_step_def Let_def write_int32_def triangle_bytes_def)

lemma addVector2_fold:
  "foldl addVector2_step (buf, lo, hi) vs =
     (buf @ concat (map vector2_bytes vs),
      \<lparr> U = foldl math_Min (U lo) (map U vs), V = foldl math_Min (V lo) (map V vs) \<rparr>,
      \<lparr> U = foldl math_Max (U hi) (map U vs), V = foldl math_Max (V hi) (map V vs) \<rparr>)"
  by (induction vs arbitrary: buf lo hi)
     (simp_all add: addVector2_step_def Let_def write_float32_def vector2_bytes_def)

lemma addVector3_fold:
  "foldl addVector3_step (buf, lo, hi) vs =
     (buf @ concat (map vector3_bytes vs),
      \<lparr> X = foldl math_Min (X lo) (map X vs), Y = foldl math_Min (Y lo) (map Y vs),
        Z = foldl math_Min (Z lo) (map Z vs) \<rparr>,
      \<lparr> X = foldl math_Max (X hi) (map X vs), Y = foldl math_Max (Y hi) (map Y vs),
        Z = foldl math_Max (Z hi) (map Z vs) \<rparr>)"
  by (induction vs arbitrary: buf lo hi)
     (simp_all add: addVector3_step_def Let_def write_float32_def vector3_bytes_def)

lemma addVector4_fold:
  "foldl addVector4_step (buf, lo, hi) vs =
     (buf @ concat (map vector4_bytes vs),
      \<lparr> Vector4.R = foldl math_Min (Vector4.R lo) (map Vector4.R vs),
        Vector4.G = foldl math_Min (Vector4.G lo) (map Vector4.G vs),
        Vector4.B = foldl math_Min (Vector4.B lo) (map Vector4.B vs),
        Vector4.A = foldl math_Min (Vector4.A lo) (map Vector4.A vs) \<rparr>,
      \<lparr> Vector4.R = foldl math_Max (Vector4.R hi) (map Vector4.R vs),
        Vector4.G = foldl math_Max (Vector4.G hi) (map Vector4.G vs),
        Vector4.B = foldl math_Max (Vector4.B hi) (map Vector4.B vs),
        Vector4.A = foldl math_Max (Vector4.A hi) (map Vector4.A vs) \<rparr>)"
  by (induction vs arbitrary: buf lo hi)
     (simp_all add: addVector4_step_def Let_def write_float32_def vector4_bytes_def)

lemma getAccessorIndexFromVector2_eq:
  "getAccessorIndexFromVector2 buf vs bvs accs =
     (int (length accs), buf @ concat (map vector2_bytes vs),
      bvs @ [\<lparr> Buffer = 0, BufferView.ByteLength = 8 * int (length vs),
               BufferView.ByteOffset = int (length buf), ByteStride = 8, Target = 34962 \<rparr>],
      accs @ [\<lparr> BufferView = int (length bvs), Accessor.ByteOffset = 0,
                ComponentType = 5126, Count = int (length vs), Type = ''VEC2'',
                Max_acc = [foldl math_Max (Finite (- 100)) (map U vs),
                           foldl math_Max (Finite (- 100)) (map V vs)],
                Min_acc = [foldl math_Min (Finite 100) (map U vs),
                           foldl math_Min (Finite 100) (map V vs)] \<rparr>])"
  by (simp add: getAccessorIndexFromVector2_def addVector2ArrayToBuffer_def addVector2_fold
        Let_def)

lemma getAccessorIndexFromVector3_eq:
  "getAccessorIndexFromVector3 buf vs bvs accs =
     (int (length accs), buf @ concat (map vector3_bytes vs),
      bvs @ [\<lparr> Buffer = 0, BufferView.ByteLength = 12 * int (length vs),
               BufferView.ByteOffset = int (length buf), ByteStride = 12, Target = 34962 \<rparr>],
      accs @ [\<lparr> BufferView = int (length bvs), Accessor.ByteOffset = 0,
                ComponentType = 5126, Count = int (length vs), Type = ''VEC3'',
                Max_acc = [foldl math_Max (Finite (- 100)) (map X vs),
                           foldl math_Max (Finite (- 100)) (map Y vs),
                           foldl math_Max (Finite (- 100)) (map Z vs)],
                Min_acc = [foldl math_Min (Finite 100) (map X vs),
                           foldl math_Min (Finite 100) (map Y vs),
                           foldl math_Min (Finite 100) (map Z vs)] \<rparr>])"
  by (simp add: getAccessorIndexFromVector3_def addVector3ArrayToBuffer_def addVector3_fold
        Let_def)

lemma getAccessorIndexFromVector4_eq:
  "getAccessorIndexFromVector4 buf vs bvs accs =
     (int (length accs), buf @ concat (map vector4_bytes vs),
      bvs @ [\<lparr> Buffer = 0, BufferView.ByteLength = 16 * int (length vs),
               BufferView.ByteOffset = int (length buf), ByteStride = 16, Target = 34962 \<rparr>],
      accs @ [\<lparr> BufferView = int (length bvs), Accessor.ByteOffset = 0,
                ComponentType = 5126, Count = int (length vs), Type = ''VEC4'',
                Max_acc = [foldl math_Max (Finite (- 100)) (map Vector4.R vs),
                           foldl math_Max (Finite (- 100)) (map Vector4.G vs),
                           foldl math_Max (Finite (- 100)) (map Vector4.B vs),
                           foldl math_Max (Finite (- 100)) (map Vector4.A vs)],
                Min_acc = [foldl math_Min (Finite 100) (map Vector4.R vs),
                           foldl math_Min (Finite 100) (map Vector4.G vs),
                           foldl math_Min (Finite 100) (map Vector4.B vs),
                           foldl math_Min (Finite 100) (map Vector4.A vs)] \<rparr>])"
  by (simp add: getAccessorIndexFromVector4_def addVector4ArrayToBuffer_def addVector4_fold
        Let_def)

lemma addTriangle_step_snd:
  "snd (addTriangle_step (buf, mn, mx) t) = snd (addTriangle_step ([], mn, mx) t)"
  by (simp add: addTriangle_step_def Let_def)

lemma addTriangle_fold_snd:
  "snd (foldl addTriangle_step (buf, mn, mx) ts) = snd (foldl addTriangle_step ([], mn, mx) ts)"
proof (induction ts arbitrary: buf mn mx)
  case Nil
  show ?case by simp
next
  case (Cons t ts)
  obtain b1 mn1 mx1 where s1: "addTriangle_step (buf, mn, mx) t = (b1, mn1, mx1)"
    by (cases "addTriangle_step (buf, mn, mx) t") auto
  obtain b2 mn2 mx2 where s2: "addTriangle_step ([], mn, mx) t = (b2, mn2, mx2)"
    by (cases "addTriangle_step ([], mn, mx) t") auto
  have "mn1 = mn2 \<and> mx1 = mx2"
    using addTriangle_step_snd [of buf mn mx t] s1 s2 by simp
  then show ?case
    using Cons.IH [of b1 mn1 mx1] Cons.IH [of b2 mn1 mx1] by (simp add: s1 s2)
qed

lemma getAccessorIndexFromIndices_eq:
  "getAccessorIndexFromIndices buf ts bvs accs =
     (int (length accs), buf @ concat (map triangle_bytes ts),
      bvs @ [\<lparr> Buffer = 0, BufferView.ByteLength = 12 * int (length ts),
               BufferView.ByteOffset = int (length buf), ByteStride = 0, Target = 34963 \<rparr>],
      accs @ [\<lparr> BufferView = int (length bvs), Accessor.ByteOffset = 0,
                ComponentType = 5125, Count = int (length ts) * 3, Type = ''SCALAR'',
                Max_acc = [float32_of_uint32 (indices_max ts)],
                Min_acc = [float32_of_uint32 (indices_min ts)] \<rparr>])"
proof -
  obtain b mn mx where f: "addTriangleArrayToBuffer buf ts = (b, mn, mx)"
    by (cases "addTriangleArrayToBuffer buf ts") auto
  have b: "b = buf @ concat (map triangle_bytes ts)"
    using addTriangle_fold_buf [of buf 100 0 ts] f by (simp add: addTriangleArrayToBuffer_def)
  have "snd (addTriangleArrayToBuffer buf ts) = snd (addTriangleArrayToBuffer [] ts)"
    unfolding addTriangleArrayToBuffer_def by (rule addTriangle_fold_snd)
  with f have "snd (addTriangleArrayToBuffer [] ts) = (mn, mx)"
    by simp
  then have m: "mn = indices_min ts \<and> mx = indices_max ts"
    by (simp add: indices_min_def indices_max_def)
  show ?thesis
    by (simp add: getAccessorIndexFromIndices_def f b m Let_def)
qed

lemma accessor_of_append [simp]: "accessor_of (int (length accs), b, v, accs @ [a]) = a"
  by (simp add: accessor_of_def)

subsection \<open>The derived material\<close>

text \<open>
  Claim C6.  For every source material the derived glTF material has alpha mode
  \<open>"BLEND"\<close> exactly when the opacity is below 1 and no alpha mode otherwise, is
  double-sided, has metallic factor 0, and has the roughness factor
  \<open>1 - specularPower / 128\<close>, the subtraction and the division being those of
  \<open>float64\<close> as the source computes them.
\<close>

theorem gltfMaterial_derived:
  "(AlphaMode (gltfMaterial m) = Some ''BLEND'') = fl_less (Opacity m) (Finite 1)
   \<and> (AlphaMode (gltfMaterial m) = None) = (\<not> fl_less (Opacity m) (Finite 1))
   \<and> DoubleSided (gltfMaterial m)
   \<and> RoughnessFactor (PbrMetallicRoughness (gltfMaterial m))
       = f64_sub (Finite 1) (f64_div (SpecularPower m) (Finite 128))
   \<and> MetallicFactor (PbrMetallicRoughness (gltfMaterial m)) = Finite 0"
  by (simp add: gltfMaterial_def Let_def)

subsection \<open>Accessor bounds\<close>




subsection \<open>What one append adds\<close>

text \<open>
  Claim C4.  Every append of the packer adds exactly one buffer view, whose byte offset is
  the length of the buffer before the write and whose byte length is the number of bytes
  written (8, 12, 16 or 12 per element), with stride 8, 12 and 16 for vectors and none
  (the zero value, left out of the JSON) for index triples; and exactly one accessor that
  refers to that buffer view, with component type 5126 for vectors and 5125 for indices,
  the count of elements (three per triangle for indices) and the type \<open>VEC2\<close>,
  \<open>VEC3\<close>, \<open>VEC4\<close> or \<open>SCALAR\<close>.  The index returned is the index of the new accessor.
\<close>

theorem packer_appends_view_and_accessor:
  "(\<exists>ws mn mx. length ws = 8 * length vs2
      \<and> getAccessorIndexFromVector2 buf vs2 bvs accs =
          (int (length accs), buf @ ws,
           bvs @ [\<lparr> Buffer = 0, BufferView.ByteLength = int (length ws),
                    BufferView.ByteOffset = int (length buf), ByteStride = 8, Target = 34962 \<rparr>],
           accs @ [\<lparr> BufferView = int (length bvs), Accessor.ByteOffset = 0,
                     ComponentType = 5126, Count = int (length vs2), Type = ''VEC2'',
                     Max_acc = mx, Min_acc = mn \<rparr>]))
 \<and> (\<exists>ws mn mx. length ws = 12 * length vs3
      \<and> getAccessorIndexFromVector3 buf vs3 bvs accs =
          (int (length accs), buf @ ws,
           bvs @ [\<lparr> Buffer = 0, BufferView.ByteLength = int (length ws),
                    BufferView.ByteOffset = int (length buf), ByteStride = 12, Target = 34962 \<rparr>],
           accs @ [\<lparr> BufferView = int (length bvs), Accessor.ByteOffset = 0,
                     ComponentType = 5126, Count = int (length vs3), Type = ''VEC3'',
                     Max_acc = mx, Min_acc = mn \<rparr>]))
 \<and> (\<exists>ws mn mx. length ws = 16 * length vs4
      \<and> getAccessorIndexFromVector4 buf vs4 bvs accs =
          (int (length accs), buf @ ws,
           bvs @ [\<lparr> Buffer = 0, BufferView.ByteLength = int (length ws),
                    BufferView.ByteOffset = int (length buf), ByteStride = 16, Target = 34962 \<rparr>],
           accs @ [\<lparr> BufferView = int (length bvs), Accessor.ByteOffset = 0,
                     ComponentType = 5126, Count = int (length vs4), Type = ''VEC4'',
                     Max_acc = mx, Min_acc = mn \<rparr>]))
 \<and> (\<exists>ws mn mx. length ws = 12 * length ts
      \<and> getAccessorIndexFromIndices buf ts bvs accs =
          (int (length accs), buf @ ws,
           bvs @ [\<lparr> Buffer = 0, BufferView.ByteLength = int (length ws),
                    BufferView.ByteOffset = int (length buf), ByteStride = 0, Target = 34963 \<rparr>],
           accs @ [\<lparr> BufferView = int (length bvs), Accessor.ByteOffset = 0,
                     ComponentType = 5125, Count = 3 * int (length ts), Type = ''SCALAR'',
                     Max_acc = mx, Min_acc = mn \<rparr>])
      \<and> ''byteStride'' \<notin> set (json_keys (marshal_BufferView
            \<lparr> Buffer = 0, BufferView.ByteLength = int (length ws),
              BufferView.ByteOffset = int (length buf), ByteStride = 0, Target = 34963 \<rparr>)))"
proof -
  have 2: "length (concat (map vector2_bytes vs2)) = 8 * length vs2" by simp
  have 3: "length (concat (map vector3_bytes vs3)) = 12 * length vs3" by simp
  have 4: "length (concat (map vector4_bytes vs4)) = 16 * length vs4" by simp
  have t: "length (concat (map triangle_bytes ts)) = 12 * length ts" by simp
  have k: "\<And>n m. ''byteStride'' \<notin> set (json_keys (marshal_BufferView
            \<lparr> Buffer = 0, BufferView.ByteLength = n,
              BufferView.ByteOffset = m, ByteStride = 0, Target = 34963 \<rparr>))"
    by (simp add: marshal_BufferView_def)
  show ?thesis
    unfolding getAccessorIndexFromVector2_eq getAccessorIndexFromVector3_eq
      getAccessorIndexFromVector4_eq getAccessorIndexFromIndices_eq
    apply (intro conjI)
    subgoal using 2 by (intro exI [of _ "concat (map vector2_bytes vs2)"] exI) (simp; fail)
    subgoal using 3 by (intro exI [of _ "concat (map vector3_bytes vs3)"] exI) (simp; fail)
    subgoal using 4 by (intro exI [of _ "concat (map vector4_bytes vs4)"] exI) (simp; fail)
    subgoal using t k by (intro exI [of _ "concat (map triangle_bytes ts)"] exI) (simp; fail)
    done
qed

end
